theory Spec2Isabelle
  imports Main "HOL-Library.Sublist"
begin

section \<open>The LiveKit session controller of RPG-VCMC\<close>

text \<open>
  A shallow embedding of \<^verbatim>\<open>app/src/features/livekit/join.ts\<close>. The repository holds
  three generations of that file:
  \<^item> \<^verbatim>\<open>src/unnamed/part_003\<close>: audio and video (the version the current room panel calls);
    it is the primary model and keeps the source's names;
  \<^item> \<^verbatim>\<open>src/app/src/features/livekit/join.ts\<close>: audio only; its \<^verbatim>\<open>leaveLiveKit\<close> is
    modelled as \<open>leaveLiveKit_audio\<close>;
  \<^item> \<^verbatim>\<open>src/unnamed/part_002\<close>: \<^verbatim>\<open>fetchLiveKitToken\<close>, the first version.

  The module-level variables of the source and the part of the outside world the code
  acts on (the DOM, the transport library, the capture devices) are one record that every
  operation takes and returns. What the outside world answers to a call (a rejected
  promise, a response, a list of tracks) is read from an \<open>env\<close> record, so every
  \<^verbatim>\<open>throw\<close> and every rejected \<^verbatim>\<open>await\<close> is a branch of the model. Each external
  call is appended to the trace \<open>calls\<close>. An \<^verbatim>\<open>async\<close> function is modelled as running
  to completion: what may interleave at an \<^verbatim>\<open>await\<close> is outside the model. Objects
  (rooms, DOM elements, local tracks) are natural numbers; the attributes the source sets
  on a media element (\<^verbatim>\<open>autoplay\<close>, \<^verbatim>\<open>playsInline\<close>, the style) are not part of the state.
  \<^verbatim>\<open>stopCamera\<close> and \<^verbatim>\<open>preflightCameraPermission\<close> are not modelled.
\<close>

subsection \<open>Data\<close>

type_synonym room = nat     \<comment> \<open>identity of a \<^verbatim>\<open>Room\<close> object\<close>
type_synonym elem = nat     \<comment> \<open>identity of a DOM element\<close>
type_synonym ltrack = nat   \<comment> \<open>identity of a local capture track\<close>

datatype kind = Audio | Video | Unknown

record remote_track =
  kind :: kind
  track_sid :: string

record participant =
  identity :: string
  participant_sid :: string

record publication =
  pub_track :: "ltrack option"   \<comment> \<open>\<^verbatim>\<open>pub.track\<close>, which may be undefined\<close>

record config =
  livekit_host :: string
  livekit_tokenEndpoint :: string

record user =
  uid :: string

datatype body =
    Unparsable                    \<comment> \<open>\<^verbatim>\<open>resp.json()\<close> rejects\<close>
  | Null                          \<comment> \<open>the body parses to the JSON value \<^verbatim>\<open>null\<close>\<close>
  | Parsed "string option"        \<comment> \<open>any other parsed value: its \<^verbatim>\<open>token\<close> property, None when absent\<close>

record response =
  resp_status :: nat
  resp_statusText :: string
  resp_text :: string
  resp_json :: body

record mounts =
  audioContainer :: "elem option"
  remoteVideoContainer :: "elem option"
  localVideo :: "elem option"

datatype facing = FacingUser | FacingEnvironment

record opts =
  publishVideo :: bool
  cameraFacingMode :: "facing option"

datatype error =
    RoomIdRequired                \<comment> \<open>\<^verbatim>\<open>roomId is required\<close>\<close>
  | ConfigError                   \<comment> \<open>\<^verbatim>\<open>loadConfig()\<close> rejected\<close>
  | MissingConfig                 \<comment> \<open>\<^verbatim>\<open>Missing livekit.host or livekit.tokenEndpoint in config.\<close>\<close>
  | SignInError                   \<comment> \<open>\<^verbatim>\<open>signInAnonymously\<close> rejected\<close>
  | IdTokenError                  \<comment> \<open>\<^verbatim>\<open>getIdToken\<close> rejected\<close>
  | FetchError                    \<comment> \<open>\<^verbatim>\<open>fetch\<close> rejected\<close>
  | TokenEndpoint nat string      \<comment> \<open>\<^verbatim>\<open>Token endpoint ${status}: ${text}\<close>\<close>
  | JsonError                     \<comment> \<open>\<^verbatim>\<open>resp.json()\<close> rejected\<close>
  | TypeError                     \<comment> \<open>the \<^verbatim>\<open>token\<close> property is read from \<^verbatim>\<open>null\<close>\<close>
  | NoToken                       \<comment> \<open>\<^verbatim>\<open>Token endpoint did not return { token }\<close>\<close>
  | BadHost string                \<comment> \<open>\<^verbatim>\<open>livekit.host must start with wss:// or ws://, got ${host}\<close>\<close>
  | ConnectError                  \<comment> \<open>\<^verbatim>\<open>room.connect\<close> rejected\<close>
  | LocalTracksError              \<comment> \<open>\<^verbatim>\<open>createLocalTracks\<close> or \<^verbatim>\<open>createLocalVideoTrack\<close> rejected\<close>
  | PublishError                  \<comment> \<open>\<^verbatim>\<open>publishTrack\<close> rejected\<close>
  | NotConnected                  \<comment> \<open>\<^verbatim>\<open>Not connected\<close>\<close>

datatype call =
    LoadConfig
  | SignInAnonymously
  | GetIdToken
  | Fetch string string string string  \<comment> \<open>token endpoint, room, identity, bearer token\<close>
  | NewRoom room
  | Connect room string string         \<comment> \<open>room, host, token\<close>
  | StartAudio room
  | CreateLocalTracks
  | CreateLocalVideoTrack facing
  | PublishTrack room ltrack
  | UnpublishTrack room "ltrack option"
  | StopTrack ltrack
  | Disconnect room

record env =
  loadConfig_result :: "config option"            \<comment> \<open>None: \<^verbatim>\<open>loadConfig()\<close> rejects\<close>
  currentUser :: "user option"                    \<comment> \<open>\<^verbatim>\<open>auth.currentUser\<close> when the call starts\<close>
  signInAnonymously_result :: "user option"       \<comment> \<open>None: rejects; Some u: the user signed in\<close>
  getIdToken_result :: "string option"            \<comment> \<open>None: rejects\<close>
  fetch_result :: "response option"               \<comment> \<open>None: \<^verbatim>\<open>fetch\<close> rejects\<close>
  connect_ok :: bool
  startAudio_ok :: bool                           \<comment> \<open>a rejection of \<^verbatim>\<open>startAudio\<close> is swallowed\<close>
  createLocalTracks_result :: "ltrack list option"
  createLocalVideoTrack_result :: "ltrack option"
  publishTrack_ok :: "ltrack \<Rightarrow> bool"
  unpublishTrack_ok :: "ltrack option \<Rightarrow> bool"
  disconnect_ok :: bool

record state =
  currentRoom :: "room option"
  audioContainerEl :: "elem option"
  remoteVideoContainerEl :: "elem option"
  localVideoEl :: "elem option"
  audioEls :: "(string \<times> elem) list"          \<comment> \<open>a JS \<^verbatim>\<open>Map\<close>, in insertion order\<close>
  videoEls :: "(string \<times> elem) list"
  parentNode :: "elem \<Rightarrow> elem option"           \<comment> \<open>the DOM: the parent of each element\<close>
  srcObject :: "elem \<Rightarrow> ltrack option"          \<comment> \<open>the track a video element plays\<close>
  nextObj :: nat                                \<comment> \<open>the next object the runtime allocates\<close>
  listeners :: "room list"                      \<comment> \<open>rooms with the three binder handlers\<close>
  disconnectedOnce :: "room list"               \<comment> \<open>rooms with the \<^verbatim>\<open>once(Disconnected)\<close> handler\<close>
  connected :: "room list"                      \<comment> \<open>rooms whose transport is open\<close>
  trackPublications :: "room \<Rightarrow> publication list"
  capturing :: "ltrack list"                    \<comment> \<open>local tracks not stopped\<close>
  calls :: "call list"                          \<comment> \<open>the external calls made so far\<close>

definition initial :: state where
  "initial = \<lparr> currentRoom = None, audioContainerEl = None, remoteVideoContainerEl = None,
      localVideoEl = None, audioEls = [], videoEls = [], parentNode = (\<lambda>_. None),
      srcObject = (\<lambda>_. None), nextObj = 0, listeners = [], disconnectedOnce = [],
      connected = [], trackPublications = (\<lambda>_. []), capturing = [], calls = [] \<rparr>"

definition called :: "call \<Rightarrow> state \<Rightarrow> state" where
  "called c s = s\<lparr>calls := calls s @ [c]\<rparr>"

subsection \<open>The JS \<^verbatim>\<open>Map\<close> and string operations the source uses\<close>

fun Map_set :: "(string \<times> 'v) list \<Rightarrow> string \<Rightarrow> 'v \<Rightarrow> (string \<times> 'v) list" where
  "Map_set [] k v = [(k, v)]"
| "Map_set ((k', v') # m) k v = (if k' = k then (k, v) # m else (k', v') # Map_set m k v)"

definition Map_get :: "(string \<times> 'v) list \<Rightarrow> string \<Rightarrow> 'v option" where
  "Map_get m k = map_of m k"

definition Map_delete :: "(string \<times> 'v) list \<Rightarrow> string \<Rightarrow> (string \<times> 'v) list" where
  "Map_delete m k = filter (\<lambda>e. fst e \<noteq> k) m"

definition Map_keys :: "(string \<times> 'v) list \<Rightarrow> string list" where
  "Map_keys m = map fst m"

definition startsWith :: "string \<Rightarrow> string \<Rightarrow> bool" where
  "startsWith k p = prefix p k"

definition binding_key :: "string \<Rightarrow> string \<Rightarrow> string" where
  \<comment> \<open>the template \<^verbatim>\<open>`${participantIdentity}:${sid}`\<close>\<close>
  "binding_key participantIdentity sid = participantIdentity @ '':'' @ sid"

subsection \<open>Remote track binder (part_003, lines 28 to 80)\<close>

definition removeFromParent :: "elem option \<Rightarrow> state \<Rightarrow> state" where
  \<comment> \<open>\<^verbatim>\<open>if (el?.parentNode) el.parentNode.removeChild(el)\<close>\<close>
  "removeFromParent el s =
     (case el of
        None \<Rightarrow> s
      | Some e \<Rightarrow>
          (case parentNode s e of
             None \<Rightarrow> s
           | Some p \<Rightarrow> s\<lparr>parentNode := (parentNode s)(e := None)\<rparr>))"

definition attachRemoteAudio :: "remote_track \<Rightarrow> string \<Rightarrow> state \<Rightarrow> state" where
  "attachRemoteAudio track participantIdentity s =
     (case audioContainerEl s of
        None \<Rightarrow> s
      | Some c \<Rightarrow>
          (let el = nextObj s
           in s\<lparr> nextObj := Suc el,
                 parentNode := (parentNode s)(el \<mapsto> c),
                 audioEls := Map_set (audioEls s) (binding_key participantIdentity (track_sid track)) el \<rparr>))"

definition detachRemoteAudio :: "string \<Rightarrow> string \<Rightarrow> state \<Rightarrow> state" where
  "detachRemoteAudio participantIdentity sid s =
     (let key = binding_key participantIdentity sid;
          el = Map_get (audioEls s) key;
          s1 = removeFromParent el s
      in s1\<lparr>audioEls := Map_delete (audioEls s1) key\<rparr>)"

definition forgetAudio :: "string \<Rightarrow> state \<Rightarrow> state" where
  \<comment> \<open>the body of the \<^verbatim>\<open>forEach\<close> in \<^verbatim>\<open>detachAllRemoteAudioFor\<close>\<close>
  "forgetAudio k s =
     (let el = Map_get (audioEls s) k;
          s1 = removeFromParent el s
      in s1\<lparr>audioEls := Map_delete (audioEls s1) k\<rparr>)"

definition detachAllRemoteAudioFor :: "string \<Rightarrow> state \<Rightarrow> state" where
  "detachAllRemoteAudioFor participantIdentity s =
     fold forgetAudio
       (filter (\<lambda>k. startsWith k (participantIdentity @ '':'')) (Map_keys (audioEls s))) s"

definition detachAllRemoteAudio :: "state \<Rightarrow> state" where
  "detachAllRemoteAudio s =
     (fold (\<lambda>e. removeFromParent (Some (snd e))) (audioEls s) s)\<lparr>audioEls := []\<rparr>"

definition attachRemoteVideo :: "remote_track \<Rightarrow> string \<Rightarrow> state \<Rightarrow> state" where
  "attachRemoteVideo track participantIdentity s =
     (case remoteVideoContainerEl s of
        None \<Rightarrow> s
      | Some c \<Rightarrow>
          (let el = nextObj s
           in s\<lparr> nextObj := Suc el,
                 parentNode := (parentNode s)(el \<mapsto> c),
                 videoEls := Map_set (videoEls s) (binding_key participantIdentity (track_sid track)) el \<rparr>))"

definition detachRemoteVideo :: "string \<Rightarrow> string \<Rightarrow> state \<Rightarrow> state" where
  "detachRemoteVideo participantIdentity sid s =
     (let key = binding_key participantIdentity sid;
          el = Map_get (videoEls s) key;
          s1 = removeFromParent el s
      in s1\<lparr>videoEls := Map_delete (videoEls s1) key\<rparr>)"

definition forgetVideo :: "string \<Rightarrow> state \<Rightarrow> state" where
  \<comment> \<open>the body of the \<^verbatim>\<open>forEach\<close> in \<^verbatim>\<open>detachAllRemoteVideoFor\<close>\<close>
  "forgetVideo k s =
     (let el = Map_get (videoEls s) k;
          s1 = removeFromParent el s
      in s1\<lparr>videoEls := Map_delete (videoEls s1) k\<rparr>)"

definition detachAllRemoteVideoFor :: "string \<Rightarrow> state \<Rightarrow> state" where
  "detachAllRemoteVideoFor participantIdentity s =
     fold forgetVideo
       (filter (\<lambda>k. startsWith k (participantIdentity @ '':'')) (Map_keys (videoEls s))) s"

definition detachAllRemoteVideo :: "state \<Rightarrow> state" where
  "detachAllRemoteVideo s =
     (fold (\<lambda>e. removeFromParent (Some (snd e))) (videoEls s) s)\<lparr>videoEls := []\<rparr>"

subsection \<open>The event handlers \<^verbatim>\<open>joinLiveKit\<close> registers (part_003, lines 120 to 137, 161 to 168)\<close>

definition onTrackSubscribed :: "remote_track \<Rightarrow> participant \<Rightarrow> state \<Rightarrow> state" where
  "onTrackSubscribed track p s =
     (if kind track = Audio then attachRemoteAudio track (identity p) s
      else if kind track = Video then attachRemoteVideo track (identity p) s
      else s)"

definition onTrackUnsubscribed :: "remote_track \<Rightarrow> participant \<Rightarrow> state \<Rightarrow> state" where
  \<comment> \<open>the source passes \<^verbatim>\<open>participant.sid\<close>, not \<^verbatim>\<open>track.sid\<close>\<close>
  "onTrackUnsubscribed track p s =
     (if kind track = Audio then detachRemoteAudio (identity p) (participant_sid p) s
      else if kind track = Video then detachRemoteVideo (identity p) (participant_sid p) s
      else s)"

definition onParticipantDisconnected :: "participant \<Rightarrow> state \<Rightarrow> state" where
  "onParticipantDisconnected p s =
     detachAllRemoteVideoFor (identity p) (detachAllRemoteAudioFor (identity p) s)"

definition onDisconnected :: "state \<Rightarrow> state" where
  \<comment> \<open>the handler of \<^verbatim>\<open>room.once(RoomEvent.Disconnected, ...)\<close>\<close>
  "onDisconnected s =
     (detachAllRemoteVideo (detachAllRemoteAudio s))
       \<lparr> audioContainerEl := None, remoteVideoContainerEl := None,
         localVideoEl := None, currentRoom := None \<rparr>"

datatype event =
    TrackSubscribed remote_track participant
  | TrackUnsubscribed remote_track participant
  | ParticipantDisconnected participant
  | Disconnected

definition emit :: "room \<Rightarrow> event \<Rightarrow> state \<Rightarrow> state" where
  \<comment> \<open>the transport library raising an event on a room: the handlers registered on that
      room run; \<^verbatim>\<open>Disconnected\<close> closes the transport and its handler runs once\<close>
  "emit r ev s =
     (case ev of
        TrackSubscribed track p \<Rightarrow>
          if r \<in> set (listeners s) then onTrackSubscribed track p s else s
      | TrackUnsubscribed track p \<Rightarrow>
          if r \<in> set (listeners s) then onTrackUnsubscribed track p s else s
      | ParticipantDisconnected p \<Rightarrow>
          if r \<in> set (listeners s) then onParticipantDisconnected p s else s
      | Disconnected \<Rightarrow>
          (let s1 = s\<lparr>connected := removeAll r (connected s)\<rparr>
           in if r \<in> set (disconnectedOnce s1)
              then onDisconnected (s1\<lparr>disconnectedOnce := removeAll r (disconnectedOnce s1)\<rparr>)
              else s1))"

subsection \<open>Leaving (part_003, lines 220 to 244)\<close>

definition stopTrack :: "ltrack \<Rightarrow> state \<Rightarrow> state" where
  \<comment> \<open>\<^verbatim>\<open>track.stop()\<close>: the device is released\<close>
  "stopTrack t s = (called (StopTrack t) s)\<lparr>capturing := removeAll t (capturing s)\<rparr>"

definition unpublished :: "room \<Rightarrow> ltrack option \<Rightarrow> state \<Rightarrow> state" where
  \<comment> \<open>what a resolved \<^verbatim>\<open>unpublishTrack(track, true)\<close> does in the library: the
      publication is gone and, as \<^verbatim>\<open>stopOnUnpublish\<close> is true, the track is stopped\<close>
  "unpublished room track s =
     s\<lparr> trackPublications :=
           (trackPublications s)(room := filter (\<lambda>pub. pub_track pub \<noteq> track) (trackPublications s room)),
         capturing := (case track of None \<Rightarrow> capturing s | Some t \<Rightarrow> removeAll t (capturing s)) \<rparr>"

fun unpublishLoop :: "env \<Rightarrow> room \<Rightarrow> publication list \<Rightarrow> state \<Rightarrow> state" where
  \<comment> \<open>the \<^verbatim>\<open>for\<close> loop of \<^verbatim>\<open>leaveLiveKit\<close> inside its one \<^verbatim>\<open>try\<close>: a rejected
      \<^verbatim>\<open>unpublishTrack\<close> leaves the loop, and the \<^verbatim>\<open>catch {}\<close> swallows it\<close>
  "unpublishLoop env room [] s = s"
| "unpublishLoop env room (pub # pubs) s =
     (let track = pub_track pub;
          s1 = called (UnpublishTrack room track) s
      in if unpublishTrack_ok env track
         then unpublishLoop env room pubs
                (case track of
                   None \<Rightarrow> unpublished room track s1
                 | Some t \<Rightarrow> stopTrack t (unpublished room track s1))
         else s1)"

definition disconnect :: "env \<Rightarrow> room \<Rightarrow> state \<Rightarrow> state" where
  \<comment> \<open>\<^verbatim>\<open>try { await room.disconnect(); } catch {}\<close>. The event the library raises for a
      local disconnect is not raised here: its handler would repeat the statements that
      follow the call in \<^verbatim>\<open>leaveLiveKit\<close>\<close>
  "disconnect env room s =
     (let s1 = called (Disconnect room) s
      in if disconnect_ok env then s1\<lparr>connected := removeAll room (connected s1)\<rparr> else s1)"

definition leaveLiveKit :: "env \<Rightarrow> state \<Rightarrow> state" where
  "leaveLiveKit env s =
     (case currentRoom s of
        None \<Rightarrow> s
      | Some room \<Rightarrow>
          (let s1 = unpublishLoop env room (trackPublications s room) s;
               s2 = detachAllRemoteAudio s1;
               s3 = detachAllRemoteVideo s2;
               s4 = disconnect env room s3
           in s4\<lparr> audioContainerEl := None, remoteVideoContainerEl := None,
                  localVideoEl := None, currentRoom := None \<rparr>))"

definition afterLeave :: "env \<Rightarrow> state \<Rightarrow> state" where
  \<comment> \<open>\<^verbatim>\<open>if (currentRoom) await leaveLiveKit()\<close>, the second statement of \<^verbatim>\<open>joinLiveKit\<close>\<close>
  "afterLeave env s = (if currentRoom s \<noteq> None then leaveLiveKit env s else s)"

subsection \<open>Leaving, audio-only version (join.ts, lines 140 to 169)\<close>

fun unpublishEach :: "env \<Rightarrow> room \<Rightarrow> publication list \<Rightarrow> state \<Rightarrow> state" where
  \<comment> \<open>the same loop with a \<^verbatim>\<open>try\<close> of its own around each publication\<close>
  "unpublishEach env room [] s = s"
| "unpublishEach env room (pub # pubs) s =
     (let track = pub_track pub;
          s1 = called (UnpublishTrack room track) s
      in if unpublishTrack_ok env track
         then unpublishEach env room pubs
                (case track of
                   None \<Rightarrow> unpublished room track s1
                 | Some t \<Rightarrow> stopTrack t (unpublished room track s1))
         else unpublishEach env room pubs s1)"

definition leaveLiveKit_audio :: "env \<Rightarrow> state \<Rightarrow> state" where
  "leaveLiveKit_audio env s =
     (case currentRoom s of
        None \<Rightarrow> s
      | Some room \<Rightarrow>
          (let s1 = unpublishEach env room (trackPublications s room) s;
               s2 = detachAllRemoteAudio s1;
               s3 = disconnect env room s2
           in s3\<lparr> audioContainerEl := None, currentRoom := None \<rparr>))"

subsection \<open>Camera (part_003, lines 184 to 200)\<close>

definition startCamera :: "env \<Rightarrow> facing \<Rightarrow> state \<Rightarrow> (error + unit) \<times> state" where
  "startCamera env facingMode s =
     (case currentRoom s of
        None \<Rightarrow> (Inl NotConnected, s)
      | Some room \<Rightarrow>
          (let s1 = called (CreateLocalVideoTrack facingMode) s
           in case createLocalVideoTrack_result env of
                None \<Rightarrow> (Inl LocalTracksError, s1)
              | Some vtrack \<Rightarrow>
                  (let s2 = called (PublishTrack room vtrack) (s1\<lparr>capturing := capturing s1 @ [vtrack]\<rparr>)
                   in if \<not> publishTrack_ok env vtrack then (Inl PublishError, s2)
                      else
                        (let s3 = s2\<lparr>trackPublications :=
                                      (trackPublications s2)
                                        (room := trackPublications s2 room @ [\<lparr>pub_track = Some vtrack\<rparr>])\<rparr>
                         in case localVideoEl s3 of
                              None \<Rightarrow> (Inr (), s3)
                            | Some v \<Rightarrow> (Inr (), s3\<lparr>srcObject := (srcObject s3)(v \<mapsto> vtrack)\<rparr>)))))"

subsection \<open>Joining (part_003, lines 82 to 171)\<close>

definition ok :: "response \<Rightarrow> bool" where
  \<comment> \<open>\<^verbatim>\<open>resp.ok\<close> of the Fetch API: the status is in the range 200 to 299\<close>
  "ok resp = (200 \<le> resp_status resp \<and> resp_status resp \<le> 299)"

definition isW :: "char \<Rightarrow> bool" where
  "isW c = (c = CHR ''w'' \<or> c = CHR ''W'')"

definition isS :: "char \<Rightarrow> bool" where
  "isS c = (c = CHR ''s'' \<or> c = CHR ''S'')"

fun wsScheme :: "string \<Rightarrow> bool" where
  \<comment> \<open>\<^verbatim>\<open>/^wss?:\/\//i.test(host)\<close>\<close>
  "wsScheme (w # s # r) =
     (isW w \<and> isS s \<and>
      (prefix ''://'' r \<or> (case r of [] \<Rightarrow> False | s' # r' \<Rightarrow> isS s' \<and> prefix ''://'' r')))"
| "wsScheme _ = False"

fun publishLoop :: "env \<Rightarrow> room \<Rightarrow> ltrack list \<Rightarrow> state \<Rightarrow> (error + unit) \<times> state" where
  \<comment> \<open>\<^verbatim>\<open>for (const t of baseTracks) await room.localParticipant.publishTrack(t)\<close>\<close>
  "publishLoop env room [] s = (Inr (), s)"
| "publishLoop env room (t # ts) s =
     (let s1 = called (PublishTrack room t) s
      in if publishTrack_ok env t
         then publishLoop env room ts
                (s1\<lparr>trackPublications :=
                      (trackPublications s1)(room := trackPublications s1 room @ [\<lparr>pub_track = Some t\<rparr>])\<rparr>)
         else (Inl PublishError, s1))"

definition ensureUser :: "env \<Rightarrow> state \<Rightarrow> user option \<times> state" where
  \<comment> \<open>\<^verbatim>\<open>if (!auth.currentUser) await signInAnonymously(auth); const user = auth.currentUser!\<close>\<close>
  "ensureUser env s =
     (case currentUser env of
        Some u \<Rightarrow> (Some u, s)
      | None \<Rightarrow> (signInAnonymously_result env, called SignInAnonymously s))"

definition fetchCredential :: "env \<Rightarrow> string \<Rightarrow> state \<Rightarrow> (error + config \<times> string) \<times> state" where
  \<comment> \<open>lines 97 to 107 of \<^verbatim>\<open>joinLiveKit\<close>: the config, the user, the request to the token
      endpoint; the result is the config and the token\<close>
  "fetchCredential env roomId s1 =
     (let s2 = called LoadConfig s1
      in case loadConfig_result env of
           None \<Rightarrow> (Inl ConfigError, s2)
         | Some cfg \<Rightarrow>
     (case ensureUser env s2 of
           (None, s3) \<Rightarrow> (Inl SignInError, s3)
         | (Some usr, s3) \<Rightarrow>
     (let s4 = called GetIdToken s3
      in case getIdToken_result env of
           None \<Rightarrow> (Inl IdTokenError, s4)
         | Some idToken \<Rightarrow>
     (let s5 = called (Fetch (livekit_tokenEndpoint cfg) roomId (uid usr) idToken) s4
      in case fetch_result env of
           None \<Rightarrow> (Inl FetchError, s5)
         | Some resp \<Rightarrow>
     (if \<not> ok resp then (Inl (TokenEndpoint (resp_status resp) (resp_text resp)), s5)
      else case resp_json resp of
           Unparsable \<Rightarrow> (Inl JsonError, s5)
         | Null \<Rightarrow> (Inl TypeError, s5)
         | Parsed tok \<Rightarrow>
     (case tok of
           None \<Rightarrow> (Inl NoToken, s5)
         | Some token \<Rightarrow>
     (if token = [] then (Inl NoToken, s5)
      else (Inr (cfg, token), s5))))))))"

definition openTransport :: "env \<Rightarrow> string \<Rightarrow> string \<Rightarrow> mounts \<Rightarrow> state \<Rightarrow> (error + room) \<times> state" where
  \<comment> \<open>lines 109 to 144: the host is validated, the mounts are captured, the room is
      created, the three handlers are registered, the room connects\<close>
  "openTransport env host token mnts s5 =
     (if \<not> wsScheme host then (Inl (BadHost host), s5)
      else
        (let s6 = s5\<lparr> audioContainerEl := audioContainer mnts,
                       remoteVideoContainerEl := remoteVideoContainer mnts,
                       localVideoEl := localVideo mnts \<rparr>;
             room = nextObj s6;
             s7 = called (NewRoom room) (s6\<lparr>nextObj := Suc room\<rparr>);
             s8 = s7\<lparr>listeners := room # listeners s7\<rparr>;
             s9 = called (Connect room host token) s8
         in if \<not> connect_ok env then (Inl ConnectError, s9)
            else (Inr room, s9\<lparr>connected := room # connected s9\<rparr>)))"

definition publishLocal :: "env \<Rightarrow> room \<Rightarrow> opts \<Rightarrow> state \<Rightarrow> (error + unit) \<times> state" where
  \<comment> \<open>lines 147 to 158: \<^verbatim>\<open>startAudio\<close> (a rejection is swallowed), the microphone, and the
      camera when \<^verbatim>\<open>opts.publishVideo\<close> is set\<close>
  "publishLocal env room op s9 =
     (let s10 = called (StartAudio room) s9;
          s11 = called CreateLocalTracks s10
      in case createLocalTracks_result env of
           None \<Rightarrow> (Inl LocalTracksError, s11)
         | Some baseTracks \<Rightarrow>
     (case publishLoop env room baseTracks (s11\<lparr>capturing := capturing s11 @ baseTracks\<rparr>) of
           (Inl e, s12) \<Rightarrow> (Inl e, s12)
         | (Inr _, s12) \<Rightarrow>
     (if publishVideo op
      then startCamera env (case cameraFacingMode op of None \<Rightarrow> FacingUser | Some f \<Rightarrow> f) s12
      else (Inr (), s12))))"

definition joinLiveKit :: "env \<Rightarrow> string \<Rightarrow> mounts \<Rightarrow> opts \<Rightarrow> state \<Rightarrow> (error + room) \<times> state" where
  \<comment> \<open>the function in the order of its statements; a rejection at any point is the
      result, with the state as it is at that point\<close>
  "joinLiveKit env roomId mnts op s0 =
     (if roomId = [] then (Inl RoomIdRequired, s0)
      else
        (let s1 = (if currentRoom s0 \<noteq> None then leaveLiveKit env s0 else s0)
         in case fetchCredential env roomId s1 of
              (Inl e, s5) \<Rightarrow> (Inl e, s5)
            | (Inr (cfg, token), s5) \<Rightarrow>
        (case openTransport env (livekit_host cfg) token mnts s5 of
              (Inl e, s9) \<Rightarrow> (Inl e, s9)
            | (Inr room, s9) \<Rightarrow>
        (case publishLocal env room op s9 of
              (Inl e, s13) \<Rightarrow> (Inl e, s13)
            | (Inr _, s13) \<Rightarrow>
                (Inr room, s13\<lparr> currentRoom := Some room,
                                disconnectedOnce := room # disconnectedOnce s13 \<rparr>)))))"

subsection \<open>The first version: \<^verbatim>\<open>fetchLiveKitToken\<close> (part_002)\<close>




subsection \<open>Sequences of joins\<close>


subsection \<open>Reading the trace\<close>

fun transportCall :: "call \<Rightarrow> bool" where
  "transportCall (NewRoom r) = True"
| "transportCall (Connect r h t) = True"
| "transportCall _ = False"

fun fetchCall :: "call \<Rightarrow> bool" where
  "fetchCall (Fetch e r i b) = True"
| "fetchCall _ = False"

fun credentialOrEndpointError :: "error \<Rightarrow> bool" where
  \<comment> \<open>the rejections of \<^verbatim>\<open>joinLiveKit\<close> between its \<^verbatim>\<open>leaveLiveKit\<close> and \<^verbatim>\<open>new Room()\<close>\<close>
  "credentialOrEndpointError ConfigError = True"
| "credentialOrEndpointError SignInError = True"
| "credentialOrEndpointError IdTokenError = True"
| "credentialOrEndpointError FetchError = True"
| "credentialOrEndpointError (TokenEndpoint st b) = True"
| "credentialOrEndpointError JsonError = True"
| "credentialOrEndpointError TypeError = True"
| "credentialOrEndpointError NoToken = True"
| "credentialOrEndpointError (BadHost h) = True"
| "credentialOrEndpointError _ = False"

subsection \<open>Concrete sessions\<close>

definition env_ok :: env where
  \<comment> \<open>a signed-in user, a token service that answers 200 with a token, devices that work\<close>
  "env_ok = \<lparr> loadConfig_result =
        Some \<lparr>livekit_host = ''wss://lk.example'', livekit_tokenEndpoint = ''https://fn.example/token''\<rparr>,
      currentUser = Some \<lparr>uid = ''u1''\<rparr>, signInAnonymously_result = None,
      getIdToken_result = Some ''idtok'',
      fetch_result = Some \<lparr>resp_status = 200, resp_statusText = ''OK'', resp_text = ''{}'',
                             resp_json = Parsed (Some ''jwt'')\<rparr>,
      connect_ok = True, startAudio_ok = True, createLocalTracks_result = Some [100],
      createLocalVideoTrack_result = Some 101, publishTrack_ok = (\<lambda>_. True),
      unpublishTrack_ok = (\<lambda>_. True), disconnect_ok = True \<rparr>"

definition mounts3 :: mounts where
  "mounts3 = \<lparr>audioContainer = Some 1000, remoteVideoContainer = Some 1001, localVideo = Some 1002\<rparr>"

definition audioOnly :: opts where
  "audioOnly = \<lparr>publishVideo = False, cameraFacingMode = None\<rparr>"

definition joined :: state where
  "joined = snd (joinLiveKit env_ok ''R1'' mounts3 audioOnly initial)"

definition joined_state :: state where
  \<comment> \<open>what \<open>joined\<close> evaluates to\<close>
  "joined_state = \<lparr> currentRoom = Some 0, audioContainerEl = Some 1000,
      remoteVideoContainerEl = Some 1001, localVideoEl = Some 1002, audioEls = [], videoEls = [],
      parentNode = (\<lambda>_. None), srcObject = (\<lambda>_. None), nextObj = 1, listeners = [0],
      disconnectedOnce = [0], connected = [0],
      trackPublications = (\<lambda>_. [])(0 := [\<lparr>pub_track = Some 100\<rparr>]), capturing = [100],
      calls = [LoadConfig, GetIdToken, Fetch ''https://fn.example/token'' ''R1'' ''u1'' ''idtok'',
               NewRoom 0, Connect 0 ''wss://lk.example'' ''jwt'', StartAudio 0, CreateLocalTracks,
               PublishTrack 0 100] \<rparr>"

definition micOf :: "string \<Rightarrow> remote_track" where
  "micOf sid = \<lparr>kind = Audio, track_sid = sid\<rparr>"

definition person :: "string \<Rightarrow> string \<Rightarrow> participant" where
  "person ident sid = \<lparr>identity = ident, participant_sid = sid\<rparr>"

definition env_micDenied :: env where
  \<comment> \<open>as \<open>env_ok\<close>, but \<^verbatim>\<open>createLocalTracks\<close> rejects (the microphone is refused)\<close>
  "env_micDenied = env_ok\<lparr>createLocalTracks_result := None\<rparr>"

definition leaked :: state where
  \<comment> \<open>after a join that connected and then failed\<close>
  "leaked = snd (joinLiveKit env_micDenied ''R1'' mounts3 audioOnly initial)"

definition leaked_bound :: state where
  \<comment> \<open>the room of that join then delivers a remote audio track\<close>
  "leaked_bound = emit 0 (TrackSubscribed (micOf ''TR_1'') (person ''alice'' ''PA_1'')) leaked"

definition alice_bound :: state where
  \<comment> \<open>the joined session after alice's audio track \<^verbatim>\<open>TR_1\<close> is subscribed\<close>
  "alice_bound = emit 0 (TrackSubscribed (micOf ''TR_1'') (person ''alice'' ''PA_1'')) joined"

definition two_bound :: state where
  \<comment> \<open>participants \<^verbatim>\<open>a\<close> and \<^verbatim>\<open>ab\<close>, one audio track each\<close>
  "two_bound = emit 0 (TrackSubscribed (micOf ''T2'') (person ''ab'' ''PA_2''))
                 (emit 0 (TrackSubscribed (micOf ''T1'') (person ''a'' ''PA_1'')) joined)"

definition colon_bound :: state where
  \<comment> \<open>participants \<^verbatim>\<open>a\<close> and \<^verbatim>\<open>a:b\<close>, one audio track each\<close>
  "colon_bound = emit 0 (TrackSubscribed (micOf ''T2'') (person ''a:b'' ''PA_2''))
                   (emit 0 (TrackSubscribed (micOf ''T1'') (person ''a'' ''PA_1'')) joined)"



definition env_connectFails :: env where
  "env_connectFails = env_ok\<lparr>connect_ok := False\<rparr>"

definition forbidden :: response where
  "forbidden = \<lparr>resp_status = 403, resp_statusText = ''Forbidden'',
                 resp_text = ''not_a_room_member'', resp_json = Parsed None\<rparr>"

definition env_forbidden :: env where
  \<comment> \<open>the token service answers 403\<close>
  "env_forbidden = env_ok\<lparr>fetch_result := Some forbidden\<rparr>"



definition env_unpublishFails :: env where
  \<comment> \<open>\<^verbatim>\<open>unpublishTrack\<close> rejects for the microphone track 100\<close>
  "env_unpublishFails = env_ok\<lparr>unpublishTrack_ok := (\<lambda>t. t \<noteq> Some 100)\<rparr>"

definition twoPubs :: state where
  \<comment> \<open>the joined session with the camera started: publications 100 and 101\<close>
  "twoPubs = snd (startCamera env_ok FacingUser joined)"







section \<open>Properties\<close>

subsection \<open>The JS \<^verbatim>\<open>Map\<close>\<close>

lemma Map_get_delete: "Map_get (Map_delete m k) k' = (if k' = k then None else Map_get m k')"
  by (induction m) (auto simp: Map_get_def Map_delete_def)

lemma Map_get_set: "Map_get (Map_set m k v) k' = (if k' = k then Some v else Map_get m k')"
  by (induction m) (auto simp: Map_get_def)

lemma Map_get_filter_keys:
  "Map_get (filter (\<lambda>e. P (fst e)) m) k = (if P k then Map_get m k else None)"
  by (induction m) (auto simp: Map_get_def)

lemma Map_get_key_in_keys: "Map_get m k = Some e \<Longrightarrow> k \<in> set (Map_keys m)"
proof -
  assume "Map_get m k = Some e"
  then have "(k, e) \<in> set m"
    by (simp add: Map_get_def map_of_SomeD)
  then show ?thesis
    by (force simp: Map_keys_def)
qed

subsection \<open>Detaching elements\<close>

lemma removeFromParent_eq:
  "removeFromParent el s =
     s\<lparr>parentNode := (case el of None \<Rightarrow> parentNode s | Some e \<Rightarrow> (parentNode s)(e := None))\<rparr>"
  by (auto simp: removeFromParent_def fun_eq_iff split: option.splits intro!: state.equality)

lemma fold_removeFromParent_eq:
  "fold (\<lambda>e. removeFromParent (Some (snd e))) m s
     = s\<lparr>parentNode := (\<lambda>e. if e \<in> snd ` set m then None else parentNode s e)\<rparr>"
proof (induction m arbitrary: s)
  case Nil
  show ?case by simp
next
  case (Cons a m)
  have "fold (\<lambda>e. removeFromParent (Some (snd e))) (a # m) s
          = fold (\<lambda>e. removeFromParent (Some (snd e))) m (removeFromParent (Some (snd a)) s)"
    by simp
  also have "\<dots> = (removeFromParent (Some (snd a)) s)
      \<lparr>parentNode := (\<lambda>e. if e \<in> snd ` set m then None
                            else parentNode (removeFromParent (Some (snd a)) s) e)\<rparr>"
    by (rule Cons.IH)
  also have "\<dots> = s\<lparr>parentNode := (\<lambda>e. if e \<in> snd ` set (a # m) then None else parentNode s e)\<rparr>"
    by (auto simp: removeFromParent_eq fun_eq_iff)
  finally show ?case .
qed

lemma detachAllRemoteAudio_eq:
  "detachAllRemoteAudio s
     = s\<lparr>parentNode := (\<lambda>e. if e \<in> snd ` set (audioEls s) then None else parentNode s e),
         audioEls := []\<rparr>"
  by (simp add: detachAllRemoteAudio_def fold_removeFromParent_eq)

lemma detachAllRemoteVideo_eq:
  "detachAllRemoteVideo s
     = s\<lparr>parentNode := (\<lambda>e. if e \<in> snd ` set (videoEls s) then None else parentNode s e),
         videoEls := []\<rparr>"
  by (simp add: detachAllRemoteVideo_def fold_removeFromParent_eq)

lemma forgetAudio_eq:
  "forgetAudio k s =
     s\<lparr>parentNode := (case Map_get (audioEls s) k of None \<Rightarrow> parentNode s
                        | Some e \<Rightarrow> (parentNode s)(e := None)),
       audioEls := Map_delete (audioEls s) k\<rparr>"
  by (simp add: forgetAudio_def Let_def removeFromParent_eq)

lemma forgetVideo_eq:
  "forgetVideo k s =
     s\<lparr>parentNode := (case Map_get (videoEls s) k of None \<Rightarrow> parentNode s
                        | Some e \<Rightarrow> (parentNode s)(e := None)),
       videoEls := Map_delete (videoEls s) k\<rparr>"
  by (simp add: forgetVideo_def Let_def removeFromParent_eq)

lemma fold_forgetAudio_audioEls:
  "audioEls (fold forgetAudio ks s) = filter (\<lambda>e. fst e \<notin> set ks) (audioEls s)"
proof (induction ks arbitrary: s)
  case Nil
  show ?case by simp
next
  case (Cons k ks)
  have "audioEls (forgetAudio k s) = filter (\<lambda>e. fst e \<noteq> k) (audioEls s)"
    by (simp add: forgetAudio_eq Map_delete_def)
  with Cons.IH [of "forgetAudio k s"] show ?case
    by (simp add: conj_commute)
qed

lemma fold_forgetVideo_videoEls:
  "videoEls (fold forgetVideo ks s) = filter (\<lambda>e. fst e \<notin> set ks) (videoEls s)"
proof (induction ks arbitrary: s)
  case Nil
  show ?case by simp
next
  case (Cons k ks)
  have "videoEls (forgetVideo k s) = filter (\<lambda>e. fst e \<noteq> k) (videoEls s)"
    by (simp add: forgetVideo_eq Map_delete_def)
  with Cons.IH [of "forgetVideo k s"] show ?case
    by (simp add: conj_commute)
qed

lemma fold_forgetAudio_videoEls: "videoEls (fold forgetAudio ks s) = videoEls s"
  by (induction ks arbitrary: s) (simp_all add: forgetAudio_eq)

lemma fold_forgetVideo_audioEls: "audioEls (fold forgetVideo ks s) = audioEls s"
  by (induction ks arbitrary: s) (simp_all add: forgetVideo_eq)

lemma fold_forgetAudio_parentNode:
  "parentNode (fold forgetAudio ks s) e =
     (if \<exists>k \<in> set ks. Map_get (audioEls s) k = Some e then None else parentNode s e)"
proof (induction ks arbitrary: s)
  case Nil
  show ?case by simp
next
  case (Cons k ks)
  show ?case
    using Cons.IH [of "forgetAudio k s"]
    by (auto simp: forgetAudio_eq Map_get_delete split: option.splits if_splits)
qed

lemma fold_forgetVideo_parentNode:
  "parentNode (fold forgetVideo ks s) e =
     (if \<exists>k \<in> set ks. Map_get (videoEls s) k = Some e then None else parentNode s e)"
proof (induction ks arbitrary: s)
  case Nil
  show ?case by simp
next
  case (Cons k ks)
  show ?case
    using Cons.IH [of "forgetVideo k s"]
    by (auto simp: forgetVideo_eq Map_get_delete split: option.splits if_splits)
qed

lemma detachAllRemoteAudioFor_audioEls:
  "Map_get (audioEls (detachAllRemoteAudioFor p s)) k =
     (if startsWith k (p @ '':'') then None else Map_get (audioEls s) k)"
proof -
  have "audioEls (detachAllRemoteAudioFor p s)
          = filter (\<lambda>e. \<not> startsWith (fst e) (p @ '':'')) (audioEls s)"
    unfolding detachAllRemoteAudioFor_def fold_forgetAudio_audioEls Map_keys_def
    by (rule filter_cong) auto
  then show ?thesis
    using Map_get_filter_keys [of "\<lambda>k. \<not> startsWith k (p @ '':'')" "audioEls s" k] by simp
qed

lemma detachAllRemoteVideoFor_videoEls:
  "Map_get (videoEls (detachAllRemoteVideoFor p s)) k =
     (if startsWith k (p @ '':'') then None else Map_get (videoEls s) k)"
proof -
  have "videoEls (detachAllRemoteVideoFor p s)
          = filter (\<lambda>e. \<not> startsWith (fst e) (p @ '':'')) (videoEls s)"
    unfolding detachAllRemoteVideoFor_def fold_forgetVideo_videoEls Map_keys_def
    by (rule filter_cong) auto
  then show ?thesis
    using Map_get_filter_keys [of "\<lambda>k. \<not> startsWith k (p @ '':'')" "videoEls s" k] by simp
qed

lemma detachAllRemoteAudioFor_parentNode:
  "parentNode (detachAllRemoteAudioFor p s) e =
     (if \<exists>k. startsWith k (p @ '':'') \<and> Map_get (audioEls s) k = Some e then None
      else parentNode s e)"
proof -
  have "(\<exists>k \<in> set (filter (\<lambda>k. startsWith k (p @ '':'')) (Map_keys (audioEls s))).
            Map_get (audioEls s) k = Some e)
        = (\<exists>k. startsWith k (p @ '':'') \<and> Map_get (audioEls s) k = Some e)"
    by (auto dest: Map_get_key_in_keys)
  then show ?thesis
    unfolding detachAllRemoteAudioFor_def fold_forgetAudio_parentNode by simp
qed

lemma detachAllRemoteVideoFor_parentNode:
  "parentNode (detachAllRemoteVideoFor p s) e =
     (if \<exists>k. startsWith k (p @ '':'') \<and> Map_get (videoEls s) k = Some e then None
      else parentNode s e)"
proof -
  have "(\<exists>k \<in> set (filter (\<lambda>k. startsWith k (p @ '':'')) (Map_keys (videoEls s))).
            Map_get (videoEls s) k = Some e)
        = (\<exists>k. startsWith k (p @ '':'') \<and> Map_get (videoEls s) k = Some e)"
    by (auto dest: Map_get_key_in_keys)
  then show ?thesis
    unfolding detachAllRemoteVideoFor_def fold_forgetVideo_parentNode by simp
qed

lemma colon_free_no_prefix:
  "CHR '':'' \<notin> set p \<Longrightarrow> CHR '':'' \<notin> set q \<Longrightarrow> p \<noteq> q
     \<Longrightarrow> \<not> prefix (p @ '':'') (q @ '':'' @ t)"
proof (induction p arbitrary: q)
  case Nil
  then show ?case by (cases q) auto
next
  case (Cons a p)
  then show ?case by (cases q) auto
qed

subsection \<open>Leaving\<close>

lemma unpublishLoop_frame:
  "currentRoom (unpublishLoop env room pubs s) = currentRoom s \<and>
   audioContainerEl (unpublishLoop env room pubs s) = audioContainerEl s \<and>
   remoteVideoContainerEl (unpublishLoop env room pubs s) = remoteVideoContainerEl s \<and>
   localVideoEl (unpublishLoop env room pubs s) = localVideoEl s \<and>
   audioEls (unpublishLoop env room pubs s) = audioEls s \<and>
   videoEls (unpublishLoop env room pubs s) = videoEls s \<and>
   parentNode (unpublishLoop env room pubs s) = parentNode s \<and>
   srcObject (unpublishLoop env room pubs s) = srcObject s \<and>
   nextObj (unpublishLoop env room pubs s) = nextObj s \<and>
   listeners (unpublishLoop env room pubs s) = listeners s \<and>
   disconnectedOnce (unpublishLoop env room pubs s) = disconnectedOnce s \<and>
   connected (unpublishLoop env room pubs s) = connected s"
  by (induction pubs arbitrary: s)
     (simp_all add: Let_def called_def stopTrack_def unpublished_def split: option.splits)

lemma unpublishLoop_calls: "prefix (calls s) (calls (unpublishLoop env room pubs s))"
proof (induction pubs arbitrary: s)
  case Nil
  show ?case by simp
next
  case (Cons pub pubs)
  show ?case
    by (auto simp: Let_def called_def stopTrack_def unpublished_def split: option.splits
        intro: prefix_order.trans [OF _ Cons.IH])
qed

lemma disconnect_eq:
  "disconnect env room s =
     s\<lparr>connected := (if disconnect_ok env then removeAll room (connected s) else connected s),
       calls := calls s @ [Disconnect room]\<rparr>"
  by (simp add: disconnect_def called_def Let_def)

lemma leaveLiveKit_Idle: "currentRoom s = None \<Longrightarrow> leaveLiveKit env s = s"
  by (simp add: leaveLiveKit_def)

lemma leaveLiveKit_fields:
  "currentRoom (leaveLiveKit env s) = None"
  "currentRoom s \<noteq> None \<Longrightarrow> audioContainerEl (leaveLiveKit env s) = None"
  "currentRoom s \<noteq> None \<Longrightarrow> remoteVideoContainerEl (leaveLiveKit env s) = None"
  "currentRoom s \<noteq> None \<Longrightarrow> localVideoEl (leaveLiveKit env s) = None"
  "currentRoom s \<noteq> None \<Longrightarrow> audioEls (leaveLiveKit env s) = []"
  "currentRoom s \<noteq> None \<Longrightarrow> videoEls (leaveLiveKit env s) = []"
  "currentRoom s \<noteq> None \<Longrightarrow> parentNode (leaveLiveKit env s) =
     (\<lambda>e. if e \<in> snd ` set (audioEls s) \<union> snd ` set (videoEls s) then None else parentNode s e)"
  "nextObj (leaveLiveKit env s) = nextObj s"
  "listeners (leaveLiveKit env s) = listeners s"
  "disconnectedOnce (leaveLiveKit env s) = disconnectedOnce s"
  "srcObject (leaveLiveKit env s) = srcObject s"
  by (auto simp: leaveLiveKit_def Let_def disconnect_eq detachAllRemoteAudio_eq
      detachAllRemoteVideo_eq unpublishLoop_frame fun_eq_iff split: option.splits)

lemma leaveLiveKit_calls: "prefix (calls s) (calls (leaveLiveKit env s))"
proof (cases "currentRoom s")
  case None
  then show ?thesis by (simp add: leaveLiveKit_Idle)
next
  case (Some room)
  have "prefix (calls s) (calls (unpublishLoop env room (trackPublications s room) s))"
    by (rule unpublishLoop_calls)
  with Some show ?thesis
    by (simp add: leaveLiveKit_def Let_def disconnect_eq detachAllRemoteAudio_eq
        detachAllRemoteVideo_eq)
qed


lemma onDisconnected_fields:
  "currentRoom (onDisconnected s) = None"
  "audioContainerEl (onDisconnected s) = None"
  "remoteVideoContainerEl (onDisconnected s) = None"
  "localVideoEl (onDisconnected s) = None"
  "audioEls (onDisconnected s) = []"
  "videoEls (onDisconnected s) = []"
  "parentNode (onDisconnected s) =
     (\<lambda>e. if e \<in> snd ` set (audioEls s) \<union> snd ` set (videoEls s) then None else parentNode s e)"
  "trackPublications (onDisconnected s) = trackPublications s"
  "capturing (onDisconnected s) = capturing s"
  "calls (onDisconnected s) = calls s"
  by (auto simp: onDisconnected_def detachAllRemoteAudio_eq detachAllRemoteVideo_eq fun_eq_iff)

subsection \<open>The binder's handlers\<close>

lemma Map_delete_absent: "Map_get m k = None \<Longrightarrow> Map_delete m k = m"
  by (induction m) (auto simp: Map_get_def Map_delete_def split: if_splits)

lemma detachRemoteAudio_roundtrip:
  "Map_get (audioEls (detachRemoteAudio p (track_sid tr) (attachRemoteAudio tr p s)))
     (binding_key p (track_sid tr)) = None"
  by (simp add: detachRemoteAudio_def Let_def removeFromParent_eq Map_get_delete)

lemma detachRemoteAudio_absent:
  "Map_get (audioEls s) (binding_key p sid) = None \<Longrightarrow> detachRemoteAudio p sid s = s"
  by (simp add: detachRemoteAudio_def Let_def removeFromParent_eq Map_delete_absent)

lemma detachRemoteVideo_absent:
  "Map_get (videoEls s) (binding_key p sid) = None \<Longrightarrow> detachRemoteVideo p sid s = s"
  by (simp add: detachRemoteVideo_def Let_def removeFromParent_eq Map_delete_absent)

lemma onTrackUnsubscribed_other_key:
  "participant_sid p \<noteq> track_sid tr \<Longrightarrow>
     Map_get (audioEls (onTrackUnsubscribed tr p s)) (binding_key (identity p) (track_sid tr))
       = Map_get (audioEls s) (binding_key (identity p) (track_sid tr))"
  by (simp add: onTrackUnsubscribed_def detachRemoteAudio_def detachRemoteVideo_def Let_def
      removeFromParent_eq Map_get_delete binding_key_def)

lemma onPD_audioEls:
  "audioEls (onParticipantDisconnected p s) = audioEls (detachAllRemoteAudioFor (identity p) s)"
  by (simp add: onParticipantDisconnected_def detachAllRemoteVideoFor_def fold_forgetVideo_audioEls)

lemma onPD_videoEls:
  "Map_get (videoEls (onParticipantDisconnected p s)) k =
     (if startsWith k (identity p @ '':'') then None else Map_get (videoEls s) k)"
  by (simp add: onParticipantDisconnected_def detachAllRemoteVideoFor_videoEls
      detachAllRemoteAudioFor_def fold_forgetAudio_videoEls)

lemma onPD_parentNode:
  "parentNode (onParticipantDisconnected p s) e =
     (if (\<exists>k. startsWith k (identity p @ '':'') \<and> Map_get (audioEls s) k = Some e)
        \<or> (\<exists>k. startsWith k (identity p @ '':'') \<and> Map_get (videoEls s) k = Some e)
      then None else parentNode s e)"
proof -
  have v: "videoEls (detachAllRemoteAudioFor (identity p) s) = videoEls s"
    by (simp add: detachAllRemoteAudioFor_def fold_forgetAudio_videoEls)
  show ?thesis
    unfolding onParticipantDisconnected_def detachAllRemoteVideoFor_parentNode
      detachAllRemoteAudioFor_parentNode v
    by auto
qed

lemma startsWith_binding_key:
  "CHR '':'' \<notin> set p \<Longrightarrow> CHR '':'' \<notin> set q \<Longrightarrow>
     startsWith (binding_key q t) (p @ '':'') = (q = p)"
  using colon_free_no_prefix [of p q t]
  by (auto simp: startsWith_def binding_key_def)

lemma emit_Disconnected_registered:
  "r \<in> set (disconnectedOnce s) \<Longrightarrow>
     emit r Disconnected s =
       onDisconnected (s\<lparr>connected := removeAll r (connected s),
                         disconnectedOnce := removeAll r (disconnectedOnce s)\<rparr>)"
  by (simp add: emit_def Let_def)

subsection \<open>The stages of joining\<close>


lemma afterLeave_fields:
  "currentRoom (afterLeave env s) = None"
  "nextObj (afterLeave env s) = nextObj s"
  "listeners (afterLeave env s) = listeners s"
  "disconnectedOnce (afterLeave env s) = disconnectedOnce s"
  "prefix (calls s) (calls (afterLeave env s))"
  "afterLeave env (afterLeave env' s) = afterLeave env' s"
  by (auto simp: afterLeave_def leaveLiveKit_fields leaveLiveKit_calls)


lemma publishLoop_frame:
  "publishLoop env room ts s = (res, s') \<Longrightarrow>
     currentRoom s' = currentRoom s \<and>
     audioContainerEl s' = audioContainerEl s \<and>
     remoteVideoContainerEl s' = remoteVideoContainerEl s \<and>
     localVideoEl s' = localVideoEl s \<and>
     audioEls s' = audioEls s \<and>
     videoEls s' = videoEls s \<and>
     parentNode s' = parentNode s \<and>
     srcObject s' = srcObject s \<and>
     nextObj s' = nextObj s \<and>
     listeners s' = listeners s \<and>
     disconnectedOnce s' = disconnectedOnce s \<and>
     connected s' = connected s \<and>
     capturing s' = capturing s"
proof (induction ts arbitrary: s)
  case Nil
  then show ?case by simp
next
  case (Cons t ts)
  show ?case
  proof (cases "publishTrack_ok env t")
    case True
    with Cons.prems Cons.IH show ?thesis
      by (fastforce simp: Let_def called_def)
  next
    case False
    with Cons.prems show ?thesis
      by (auto simp: Let_def called_def)
  qed
qed


lemma publishLoop_error: "publishLoop env room ts s = (Inl e, s') \<Longrightarrow> e = PublishError"
proof (induction ts arbitrary: s)
  case Nil
  then show ?case by simp
next
  case (Cons t ts)
  then show ?case
    by (cases "publishTrack_ok env t") (auto simp: Let_def)
qed

lemma startCamera_Idle: "currentRoom s = None \<Longrightarrow> startCamera env f s = (Inl NotConnected, s)"
  by (simp add: startCamera_def)


lemma startCamera_error:
  "startCamera env f s = (Inl e, s') \<Longrightarrow> e = NotConnected \<or> e = LocalTracksError \<or> e = PublishError"
  by (auto simp: startCamera_def Let_def split: option.splits if_splits)

lemma fetchCredential_state:
  assumes "fetchCredential env roomId s = (res, s')"
  shows "s' = s\<lparr>calls := calls s'\<rparr>
       \<and> prefix (calls s) (calls s')
       \<and> filter transportCall (calls s') = filter transportCall (calls s)
       \<and> length (filter fetchCall (calls s')) \<le> Suc (length (filter fetchCall (calls s)))"
  using assms
  by (auto simp: fetchCredential_def Let_def called_def ensureUser_def
      split: option.splits prod.splits body.splits if_splits)

lemma fetchCredential_frame:
  assumes "fetchCredential env roomId s = (res, s')"
  shows "currentRoom s' = currentRoom s \<and>
     audioContainerEl s' = audioContainerEl s \<and>
     remoteVideoContainerEl s' = remoteVideoContainerEl s \<and>
     localVideoEl s' = localVideoEl s \<and>
     audioEls s' = audioEls s \<and>
     videoEls s' = videoEls s \<and>
     parentNode s' = parentNode s \<and>
     nextObj s' = nextObj s \<and>
     listeners s' = listeners s \<and>
     disconnectedOnce s' = disconnectedOnce s \<and>
     connected s' = connected s"
  using assms
  by (auto simp: fetchCredential_def Let_def called_def ensureUser_def
      split: option.splits prod.splits body.splits if_splits)

lemma fetchCredential_result:
  assumes "fetchCredential env roomId s = (res, s')"
  shows "case res of
           Inl e \<Rightarrow> credentialOrEndpointError e
         | Inr (cfg, token) \<Rightarrow>
             loadConfig_result env = Some cfg \<and> token \<noteq> []
             \<and> (\<exists>resp. fetch_result env = Some resp \<and> ok resp \<and> resp_json resp = Parsed (Some token))
             \<and> length (filter fetchCall (calls s')) = Suc (length (filter fetchCall (calls s)))"
  using assms
  by (auto simp: fetchCredential_def Let_def called_def ensureUser_def
      split: option.splits prod.splits body.splits if_splits)


lemma openTransport_BadHost:
  "\<not> wsScheme host \<Longrightarrow> openTransport env host token mnts s = (Inl (BadHost host), s)"
  by (simp add: openTransport_def)

lemma openTransport_ConnectError:
  "wsScheme host \<Longrightarrow> \<not> connect_ok env \<Longrightarrow>
     openTransport env host token mnts s =
       (Inl ConnectError,
        s\<lparr> audioContainerEl := audioContainer mnts,
           remoteVideoContainerEl := remoteVideoContainer mnts,
           localVideoEl := localVideo mnts,
           nextObj := Suc (nextObj s),
           listeners := nextObj s # listeners s,
           calls := calls s @ [NewRoom (nextObj s), Connect (nextObj s) host token] \<rparr>)"
  by (simp add: openTransport_def Let_def called_def)

lemma openTransport_connected:
  "wsScheme host \<Longrightarrow> connect_ok env \<Longrightarrow>
     openTransport env host token mnts s =
       (Inr (nextObj s),
        s\<lparr> audioContainerEl := audioContainer mnts,
           remoteVideoContainerEl := remoteVideoContainer mnts,
           localVideoEl := localVideo mnts,
           nextObj := Suc (nextObj s),
           listeners := nextObj s # listeners s,
           connected := nextObj s # connected s,
           calls := calls s @ [NewRoom (nextObj s), Connect (nextObj s) host token] \<rparr>)"
  by (simp add: openTransport_def Let_def called_def)

lemma openTransport_cases:
  assumes "openTransport env host token mnts s = (res, s')"
  obtains
    (badHost) "\<not> wsScheme host" "res = Inl (BadHost host)" "s' = s"
  | (connectError) "wsScheme host" "\<not> connect_ok env" "res = Inl ConnectError"
      "s' = s\<lparr> audioContainerEl := audioContainer mnts,
           remoteVideoContainerEl := remoteVideoContainer mnts,
           localVideoEl := localVideo mnts,
           nextObj := Suc (nextObj s),
           listeners := nextObj s # listeners s,
           calls := calls s @ [NewRoom (nextObj s), Connect (nextObj s) host token] \<rparr>"
  | (connected) "wsScheme host" "connect_ok env" "res = Inr (nextObj s)"
      "s' = s\<lparr> audioContainerEl := audioContainer mnts,
           remoteVideoContainerEl := remoteVideoContainer mnts,
           localVideoEl := localVideo mnts,
           nextObj := Suc (nextObj s),
           listeners := nextObj s # listeners s,
           connected := nextObj s # connected s,
           calls := calls s @ [NewRoom (nextObj s), Connect (nextObj s) host token] \<rparr>"
  using assms openTransport_BadHost [of host env token mnts s]
    openTransport_ConnectError [of host env token mnts s]
    openTransport_connected [of host env token mnts s]
  by (cases "wsScheme host"; cases "connect_ok env") auto


lemma publishLocal_error:
  assumes "publishLocal env room op s = (Inl e, s')"
  shows "e = NotConnected \<or> e = LocalTracksError \<or> e = PublishError"
proof (cases "createLocalTracks_result env")
  case None
  with assms show ?thesis by (simp add: publishLocal_def Let_def)
next
  case (Some baseTracks)
  let ?s11 = "(called CreateLocalTracks (called (StartAudio room) s))"
  let ?s11' = "?s11\<lparr>capturing := capturing ?s11 @ baseTracks\<rparr>"
  obtain r12 s12 where p: "publishLoop env room baseTracks ?s11' = (r12, s12)"
    by (cases "publishLoop env room baseTracks ?s11'") auto
  show ?thesis
  proof (cases r12)
    case (Inl e')
    with assms Some p have "e = e'" by (simp add: publishLocal_def Let_def)
    with p Inl publishLoop_error show ?thesis by blast
  next
    case (Inr u)
    with assms Some p show ?thesis
      by (auto simp: publishLocal_def Let_def split: if_splits dest: startCamera_error)
  qed
qed

subsection \<open>Joining\<close>

lemma joinLiveKit_cases:
  assumes "joinLiveKit env roomId mnts op s = (res, s')"
  obtains
    (empty) "roomId = []" "res = Inl RoomIdRequired" "s' = s"
  | (credential) e where "roomId \<noteq> []" "res = Inl e"
      "fetchCredential env roomId (afterLeave env s) = (Inl e, s')"
  | (transport) cfg token s5 e where "roomId \<noteq> []" "res = Inl e"
      "fetchCredential env roomId (afterLeave env s) = (Inr (cfg, token), s5)"
      "openTransport env (livekit_host cfg) token mnts s5 = (Inl e, s')"
  | (publish) cfg token s5 room s9 e where "roomId \<noteq> []" "res = Inl e"
      "fetchCredential env roomId (afterLeave env s) = (Inr (cfg, token), s5)"
      "openTransport env (livekit_host cfg) token mnts s5 = (Inr room, s9)"
      "publishLocal env room op s9 = (Inl e, s')"
  | (success) cfg token s5 room s9 s13 where "roomId \<noteq> []" "res = Inr room"
      "fetchCredential env roomId (afterLeave env s) = (Inr (cfg, token), s5)"
      "openTransport env (livekit_host cfg) token mnts s5 = (Inr room, s9)"
      "publishLocal env room op s9 = (Inr (), s13)"
      "s' = s13\<lparr>currentRoom := Some room, disconnectedOnce := room # disconnectedOnce s13\<rparr>"
  using assms unfolding joinLiveKit_def afterLeave_def Let_def
  by (auto split: if_splits prod.splits sum.splits)






lemma joinLiveKit_publishVideo:
  assumes "joinLiveKit env roomId mnts op s = (res, s')" and "publishVideo op"
  shows "\<exists>e. res = Inl e"
  using assms(1)
proof (cases rule: joinLiveKit_cases)
  case (success cfg token s5 room s9 s13)
  from fetchCredential_frame [OF success(3)] have "currentRoom s5 = None"
    by (simp add: afterLeave_fields)
  with success(4) have idle: "currentRoom s9 = None"
    by (cases rule: openTransport_cases) auto
  let ?s11 = "called CreateLocalTracks (called (StartAudio room) s9)"
  show ?thesis
  proof (cases "createLocalTracks_result env")
    case None
    with success(5) show ?thesis by (simp add: publishLocal_def Let_def)
  next
    case (Some baseTracks)
    obtain r12 s12 where p: "publishLoop env room baseTracks (?s11\<lparr>capturing := capturing ?s11 @ baseTracks\<rparr>) = (r12, s12)"
      by (cases "publishLoop env room baseTracks (?s11\<lparr>capturing := capturing ?s11 @ baseTracks\<rparr>)") auto
    from publishLoop_frame [OF p] idle have "currentRoom s12 = None"
      by (simp add: called_def)
    with success(5) Some p assms(2) show ?thesis
      by (cases r12) (simp_all add: publishLocal_def Let_def startCamera_Idle)
  qed
qed auto





subsection \<open>The first version\<close>





subsection \<open>Unpublishing the local tracks\<close>

lemma unpublishLoop_stops:
  "\<not> unpublishTrack_ok env (pub_track pub) \<Longrightarrow>
     unpublishLoop env room (pub # pubs) s = called (UnpublishTrack room (pub_track pub)) s"
  by (simp add: Let_def)

lemma unpublishEach_calls: "prefix (calls s) (calls (unpublishEach env room pubs s))"
proof (induction pubs arbitrary: s)
  case Nil
  show ?case by simp
next
  case (Cons pub pubs)
  show ?case
    by (auto simp: Let_def called_def stopTrack_def unpublished_def split: option.splits
        intro: prefix_order.trans [OF _ Cons.IH])
qed

lemma unpublishEach_attempts_all:
  "pub \<in> set pubs \<Longrightarrow>
     UnpublishTrack room (pub_track pub) \<in> set (calls (unpublishEach env room pubs s))"
proof (induction pubs arbitrary: s)
  case Nil
  then show ?case by simp
next
  case (Cons p pubs)
  let ?s1 = "called (UnpublishTrack room (pub_track p)) s"
  show ?case
  proof (cases "pub = p")
    case True
    have here: "UnpublishTrack room (pub_track p) \<in> set (calls ?s1)"
      by (simp add: called_def)
    have "set (calls ?s1) \<subseteq> set (calls (unpublishEach env room (p # pubs) s))"
      using unpublishEach_calls [of "?s1" env room pubs]
        unpublishEach_calls [of "unpublished room (pub_track p) ?s1" env room pubs]
        unpublishEach_calls [of "stopTrack (the (pub_track p)) (unpublished room (pub_track p) ?s1)" env room pubs]
      by (auto simp: Let_def called_def stopTrack_def unpublished_def split: option.splits
          dest!: set_mono_prefix)
    with here True show ?thesis by blast
  next
    case False
    with Cons.prems have "pub \<in> set pubs" by simp
    from Cons.IH [OF this] show ?thesis
      by (simp add: Let_def split: option.splits)
  qed
qed

subsection \<open>Evaluating the concrete sessions\<close>

lemmas eval_defs = joinLiveKit_def fetchCredential_def openTransport_def publishLocal_def
  leaveLiveKit_def env_ok_def mounts3_def audioOnly_def
  initial_def called_def ensureUser_def ok_def Let_def disconnect_eq detachAllRemoteAudio_eq
  detachAllRemoteVideo_eq stopTrack_def unpublished_def startCamera_def isW_def isS_def
  micOf_def person_def binding_key_def

lemma joined_eq: "joinLiveKit env_ok ''R1'' mounts3 audioOnly initial = (Inr 0, joined_state)"
  by (simp add: eval_defs joined_state_def)

lemma leaked_eq:
  "joinLiveKit env_micDenied ''R1'' mounts3 audioOnly initial =
     (Inl LocalTracksError,
      joined_state\<lparr> currentRoom := None, disconnectedOnce := [],
                    trackPublications := (\<lambda>_. []), capturing := [],
                    calls := [LoadConfig, GetIdToken,
                              Fetch ''https://fn.example/token'' ''R1'' ''u1'' ''idtok'',
                              NewRoom 0, Connect 0 ''wss://lk.example'' ''jwt'', StartAudio 0,
                              CreateLocalTracks] \<rparr>)"
  by (simp add: eval_defs env_micDenied_def joined_state_def)

lemmas binder_defs = emit_def onTrackSubscribed_def onTrackUnsubscribed_def attachRemoteAudio_def
  attachRemoteVideo_def detachRemoteAudio_def detachRemoteVideo_def removeFromParent_eq
  micOf_def person_def binding_key_def Let_def Map_get_def Map_delete_def

lemma joined_is: "joined = joined_state"
  by (simp add: joined_def joined_eq)

lemma alice_bound_eq:
  "alice_bound = joined_state\<lparr> audioEls := [(''alice:TR_1'', 1)], nextObj := 2,
                                parentNode := (\<lambda>_. None)(1 \<mapsto> 1000) \<rparr>"
  by (simp add: alice_bound_def joined_is joined_state_def binder_defs)

lemma two_bound_eq:
  "two_bound = joined_state\<lparr> audioEls := [(''a:T1'', 1), (''ab:T2'', 2)], nextObj := 3,
                              parentNode := (\<lambda>_. None)(1 \<mapsto> 1000, 2 \<mapsto> 1000) \<rparr>"
  by (simp add: two_bound_def joined_is joined_state_def binder_defs numeral_2_eq_2)

lemma colon_bound_eq:
  "colon_bound = joined_state\<lparr> audioEls := [(''a:T1'', 1), (''a:b:T2'', 2)], nextObj := 3,
                              parentNode := (\<lambda>_. None)(1 \<mapsto> 1000, 2 \<mapsto> 1000) \<rparr>"
  by (simp add: colon_bound_def joined_is joined_state_def binder_defs numeral_2_eq_2)
section \<open>The claims\<close>

subsection \<open>C1: one session handle\<close>




subsection \<open>C2: subscribe, then unsubscribe\<close>

text \<open>
  C2. The code at the input the claim is about: in the joined session, alice's audio track
  \<^verbatim>\<open>TR_1\<close> is subscribed and its binding is recorded under \<^verbatim>\<open>alice:TR_1\<close>; the matching
  track-unsubscribed event then changes nothing, because the handler looks for the key made
  of the participant's sid, \<^verbatim>\<open>alice:PA_1\<close>. The binding and its element stay.
\<close>

theorem onTrackUnsubscribed_keeps_binding:
  "Map_get (audioEls alice_bound) (binding_key ''alice'' ''TR_1'') = Some 1
   \<and> parentNode alice_bound 1 = Some 1000
   \<and> emit 0 (TrackUnsubscribed (micOf ''TR_1'') (person ''alice'' ''PA_1'')) alice_bound = alice_bound"
  by (simp add: alice_bound_eq joined_state_def binder_defs)

subsection \<open>C3: an endpoint that is not a WebSocket URL\<close>




subsection \<open>C4: the transport reports itself disconnected\<close>

text \<open>
  C4. When a room whose \<^verbatim>\<open>Disconnected\<close> handler is registered reports the disconnect,
  the controller becomes idle: every remote-track binding is detached from the DOM and both
  maps are emptied, the three surface references and the session handle are cleared. These
  module variables and the DOM end as \<^verbatim>\<open>leaveLiveKit\<close> would leave them. The handler does
  not unpublish or stop the local publications and makes no external call.
\<close>

theorem server_disconnect_cleanup:
  assumes "r \<in> set (disconnectedOnce s)" and "s' = emit r Disconnected s"
  shows "currentRoom s' = None \<and> audioContainerEl s' = None \<and> remoteVideoContainerEl s' = None
       \<and> localVideoEl s' = None \<and> audioEls s' = [] \<and> videoEls s' = []
       \<and> (\<forall>k e. Map_get (audioEls s) k = Some e \<or> Map_get (videoEls s) k = Some e
                \<longrightarrow> parentNode s' e = None)
       \<and> (currentRoom s \<noteq> None \<longrightarrow>
            currentRoom s' = currentRoom (leaveLiveKit env s)
          \<and> audioContainerEl s' = audioContainerEl (leaveLiveKit env s)
          \<and> remoteVideoContainerEl s' = remoteVideoContainerEl (leaveLiveKit env s)
          \<and> localVideoEl s' = localVideoEl (leaveLiveKit env s)
          \<and> audioEls s' = audioEls (leaveLiveKit env s)
          \<and> videoEls s' = videoEls (leaveLiveKit env s)
          \<and> parentNode s' = parentNode (leaveLiveKit env s))
       \<and> r \<notin> set (connected s')
       \<and> trackPublications s' = trackPublications s \<and> capturing s' = capturing s
       \<and> calls s' = calls s"
proof -
  let ?s1 = "s\<lparr>connected := removeAll r (connected s),
               disconnectedOnce := removeAll r (disconnectedOnce s)\<rparr>"
  have s': "s' = onDisconnected ?s1"
    using assms by (simp add: emit_Disconnected_registered)
  have bound: "\<forall>k e. Map_get (audioEls s) k = Some e \<or> Map_get (videoEls s) k = Some e
                \<longrightarrow> parentNode s' e = None"
  proof (intro allI impI)
    fix k e
    assume "Map_get (audioEls s) k = Some e \<or> Map_get (videoEls s) k = Some e"
    then have "(k, e) \<in> set (audioEls s) \<or> (k, e) \<in> set (videoEls s)"
      by (auto simp: Map_get_def dest: map_of_SomeD)
    then have "e \<in> snd ` set (audioEls s) \<union> snd ` set (videoEls s)"
      by force
    then show "parentNode s' e = None"
      by (simp add: s' onDisconnected_fields)
  qed
  have conn: "r \<notin> set (connected s')"
    by (simp add: s' onDisconnected_def detachAllRemoteAudio_eq detachAllRemoteVideo_eq)
  have cleared: "currentRoom s' = None \<and> audioContainerEl s' = None
       \<and> remoteVideoContainerEl s' = None \<and> localVideoEl s' = None
       \<and> audioEls s' = [] \<and> videoEls s' = []"
    by (simp add: s' onDisconnected_fields)
  have kept: "trackPublications s' = trackPublications s \<and> capturing s' = capturing s
       \<and> calls s' = calls s"
    by (simp add: s' onDisconnected_fields)
  have same: "currentRoom s \<noteq> None \<longrightarrow>
            currentRoom s' = currentRoom (leaveLiveKit env s)
          \<and> audioContainerEl s' = audioContainerEl (leaveLiveKit env s)
          \<and> remoteVideoContainerEl s' = remoteVideoContainerEl (leaveLiveKit env s)
          \<and> localVideoEl s' = localVideoEl (leaveLiveKit env s)
          \<and> audioEls s' = audioEls (leaveLiveKit env s)
          \<and> videoEls s' = videoEls (leaveLiveKit env s)
          \<and> parentNode s' = parentNode (leaveLiveKit env s)"
    by (simp add: s' onDisconnected_fields leaveLiveKit_fields cong: if_cong)
  from cleared bound same conn kept show ?thesis
    by blast
qed

theorem server_disconnect_cleanup_witness:
  "0 \<in> set (disconnectedOnce alice_bound)
   \<and> currentRoom alice_bound \<noteq> None
   \<and> Map_get (audioEls alice_bound) ''alice:TR_1'' = Some 1
   \<and> parentNode alice_bound 1 = Some 1000
   \<and> currentRoom (emit 0 Disconnected alice_bound) = None
   \<and> audioEls (emit 0 Disconnected alice_bound) = []
   \<and> parentNode (emit 0 Disconnected alice_bound) 1 = None
   \<and> parentNode (emit 0 Disconnected alice_bound) = parentNode (leaveLiveKit env_ok alice_bound)"
proof -
  have r: "0 \<in> set (disconnectedOnce alice_bound)"
    by (simp add: alice_bound_eq joined_state_def)
  have c: "currentRoom alice_bound \<noteq> None"
    by (simp add: alice_bound_eq joined_state_def)
  have b: "Map_get (audioEls alice_bound) ''alice:TR_1'' = Some 1"
    by (simp add: alice_bound_eq joined_state_def Map_get_def)
  have p: "parentNode alice_bound 1 = Some 1000"
    by (simp add: alice_bound_eq joined_state_def)
  from server_disconnect_cleanup [OF r refl, of env_ok] r c b p show ?thesis
    by blast
qed

text \<open>
  The claim as stated fails: after the server-initiated disconnect of the joined session
  the microphone publication is still there and its track still captures, where
  \<^verbatim>\<open>leaveLiveKit\<close> unpublishes and stops it.
\<close>

theorem server_disconnect_keeps_publications:
  "trackPublications (emit 0 Disconnected joined) 0 = [\<lparr>pub_track = Some 100\<rparr>]
   \<and> capturing (emit 0 Disconnected joined) = [100]
   \<and> calls (emit 0 Disconnected joined) = calls joined
   \<and> trackPublications (leaveLiveKit env_ok joined) 0 = []
   \<and> capturing (leaveLiveKit env_ok joined) = []
   \<and> calls (leaveLiveKit env_ok joined)
        = calls joined @ [UnpublishTrack 0 (Some 100), StopTrack 100, Disconnect 0]"
  by (simp add: joined_is joined_state_def emit_def onDisconnected_fields eval_defs)

subsection \<open>C5: leaving twice\<close>

text \<open>
  C5. \<^verbatim>\<open>leaveLiveKit\<close> never fails (it has no error result: every call that can reject is
  inside a \<^verbatim>\<open>try\<close> with an empty \<^verbatim>\<open>catch\<close>) and is idempotent: a second leave changes
  nothing, whatever the outside world answers. After any leave the session handle is null.
  A leave on an idle controller is a no-op, so on a never-joined controller it leaves
  the initial state; a leave that finds a session leaves both binding maps empty.
\<close>

theorem leaveLiveKit_idempotent:
  "leaveLiveKit env' (leaveLiveKit env s) = leaveLiveKit env s
   \<and> currentRoom (leaveLiveKit env s) = None
   \<and> (currentRoom s = None \<longrightarrow> leaveLiveKit env s = s)
   \<and> (currentRoom s \<noteq> None \<longrightarrow>
        audioEls (leaveLiveKit env s) = [] \<and> videoEls (leaveLiveKit env s) = [])
   \<and> leaveLiveKit env initial = initial"
  by (simp add: leaveLiveKit_Idle leaveLiveKit_fields initial_def)

theorem leaveLiveKit_idempotent_witness:
  "currentRoom initial = None \<and> leaveLiveKit env_ok initial = initial
   \<and> currentRoom joined \<noteq> None
   \<and> audioEls (leaveLiveKit env_ok joined) = [] \<and> videoEls (leaveLiveKit env_ok joined) = []
   \<and> leaveLiveKit env_ok (leaveLiveKit env_ok joined) = leaveLiveKit env_ok joined"
  using leaveLiveKit_idempotent [of env_ok env_ok initial]
    leaveLiveKit_idempotent [of env_ok env_ok joined]
  by (simp add: joined_def joined_eq joined_state_def)

text \<open>
  The claim as stated fails: a join that is refused the microphone after it has connected
  leaves the controller idle with its room still delivering events; a remote track then
  creates a binding, and the leave that follows returns at once and keeps it.
\<close>

theorem leaveLiveKit_residual_binding:
  "fst (joinLiveKit env_micDenied ''R1'' mounts3 audioOnly initial) = Inl LocalTracksError
   \<and> currentRoom leaked_bound = None
   \<and> audioEls (leaveLiveKit env_ok leaked_bound) = [(''alice:TR_1'', 1)]"
  by (simp add: leaked_bound_def leaked_def leaked_eq joined_state_def emit_def
      onTrackSubscribed_def attachRemoteAudio_def leaveLiveKit_def micOf_def person_def
      binding_key_def Let_def)

subsection \<open>C6: a participant disconnects\<close>

text \<open>
  C6. For participants whose identities contain no colon: a participant-disconnected event
  for \<open>p\<close> removes every binding of \<open>p\<close>, audio and video, and detaches its element, and
  removes no binding of a participant with another identity, also when one identity is the
  beginning of the other. For any identities, the bindings removed are those whose key
  starts with the identity of \<open>p\<close> followed by a colon, and no others.
\<close>

theorem onParticipantDisconnected_exact:
  "(CHR '':'' \<notin> set (identity p) \<and> CHR '':'' \<notin> set q \<longrightarrow>
      Map_get (audioEls (onParticipantDisconnected p s)) (binding_key q t)
        = (if q = identity p then None else Map_get (audioEls s) (binding_key q t))
    \<and> Map_get (videoEls (onParticipantDisconnected p s)) (binding_key q t)
        = (if q = identity p then None else Map_get (videoEls s) (binding_key q t)))
   \<and> (\<forall>e. Map_get (audioEls s) (binding_key (identity p) t) = Some e
           \<or> Map_get (videoEls s) (binding_key (identity p) t) = Some e
         \<longrightarrow> parentNode (onParticipantDisconnected p s) e = None)
   \<and> (\<forall>k. Map_get (audioEls (onParticipantDisconnected p s)) k
             = (if startsWith k (identity p @ '':'') then None else Map_get (audioEls s) k))
   \<and> (\<forall>k. Map_get (videoEls (onParticipantDisconnected p s)) k
             = (if startsWith k (identity p @ '':'') then None else Map_get (videoEls s) k))"
proof -
  have own: "startsWith (binding_key (identity p) t) (identity p @ '':'')"
    by (simp add: startsWith_def binding_key_def)
  have exact: "CHR '':'' \<notin> set (identity p) \<and> CHR '':'' \<notin> set q \<longrightarrow>
      Map_get (audioEls (onParticipantDisconnected p s)) (binding_key q t)
        = (if q = identity p then None else Map_get (audioEls s) (binding_key q t))
    \<and> Map_get (videoEls (onParticipantDisconnected p s)) (binding_key q t)
        = (if q = identity p then None else Map_get (videoEls s) (binding_key q t))"
  proof (intro impI)
    assume "CHR '':'' \<notin> set (identity p) \<and> CHR '':'' \<notin> set q"
    then have sw: "startsWith (binding_key q t) (identity p @ '':'') = (q = identity p)"
      by (simp add: startsWith_binding_key)
    show "Map_get (audioEls (onParticipantDisconnected p s)) (binding_key q t)
        = (if q = identity p then None else Map_get (audioEls s) (binding_key q t))
    \<and> Map_get (videoEls (onParticipantDisconnected p s)) (binding_key q t)
        = (if q = identity p then None else Map_get (videoEls s) (binding_key q t))"
      by (simp add: onPD_audioEls detachAllRemoteAudioFor_audioEls onPD_videoEls sw)
  qed
  have detached: "\<forall>e. Map_get (audioEls s) (binding_key (identity p) t) = Some e
               \<or> Map_get (videoEls s) (binding_key (identity p) t) = Some e
             \<longrightarrow> parentNode (onParticipantDisconnected p s) e = None"
    using own by (auto simp: onPD_parentNode)
  have audio: "\<forall>k. Map_get (audioEls (onParticipantDisconnected p s)) k
                 = (if startsWith k (identity p @ '':'') then None else Map_get (audioEls s) k)"
    by (simp add: onPD_audioEls detachAllRemoteAudioFor_audioEls)
  have video: "\<forall>k. Map_get (videoEls (onParticipantDisconnected p s)) k
                 = (if startsWith k (identity p @ '':'') then None else Map_get (videoEls s) k)"
    by (simp add: onPD_videoEls)
  from exact detached audio video show ?thesis by blast
qed

theorem onParticipantDisconnected_exact_witness:
  "CHR '':'' \<notin> set (identity (person ''a'' ''PA_1'')) \<and> CHR '':'' \<notin> set ''ab''
   \<and> Map_get (audioEls two_bound) (binding_key ''a'' ''T1'') = Some 1
   \<and> Map_get (audioEls two_bound) (binding_key ''ab'' ''T2'') = Some 2
   \<and> Map_get (audioEls (onParticipantDisconnected (person ''a'' ''PA_1'') two_bound))
        (binding_key ''a'' ''T1'') = None
   \<and> Map_get (audioEls (onParticipantDisconnected (person ''a'' ''PA_1'') two_bound))
        (binding_key ''ab'' ''T2'') = Some 2
   \<and> parentNode (onParticipantDisconnected (person ''a'' ''PA_1'') two_bound) 1 = None"
proof -
  have h1: "CHR '':'' \<notin> set (identity (person ''a'' ''PA_1''))"
    by (simp add: person_def)
  have h2: "CHR '':'' \<notin> set ''ab''" and h3: "CHR '':'' \<notin> set ''a''"
    by simp_all
  have b: "Map_get (audioEls two_bound) (binding_key ''a'' ''T1'') = Some 1"
    "Map_get (audioEls two_bound) (binding_key ''ab'' ''T2'') = Some 2"
    by (simp_all add: two_bound_eq joined_state_def binding_key_def Map_get_def)
  have i: "identity (person ''a'' ''PA_1'') = ''a''"
    by (simp add: person_def)
  have ne: "''ab'' \<noteq> identity (person ''a'' ''PA_1'')"
    by (simp add: person_def)
  note ab = onParticipantDisconnected_exact
    [where p = "person ''a'' ''PA_1''" and q = "''ab''" and s = two_bound and t = "''T2''"]
  note a = onParticipantDisconnected_exact
    [where p = "person ''a'' ''PA_1''" and q = "''a''" and s = two_bound and t = "''T1''"]
  from ab h1 h2
  have "Map_get (audioEls (onParticipantDisconnected (person ''a'' ''PA_1'') two_bound))
                  (binding_key ''ab'' ''T2'')
                = (if ''ab'' = identity (person ''a'' ''PA_1'') then None
                   else Map_get (audioEls two_bound) (binding_key ''ab'' ''T2''))"
    by blast
  with ne b(2)
  have r1: "Map_get (audioEls (onParticipantDisconnected (person ''a'' ''PA_1'') two_bound))
              (binding_key ''ab'' ''T2'') = Some 2"
    by simp
  from a h1 h3
  have "Map_get (audioEls (onParticipantDisconnected (person ''a'' ''PA_1'') two_bound))
                  (binding_key ''a'' ''T1'')
                = (if ''a'' = identity (person ''a'' ''PA_1'') then None
                   else Map_get (audioEls two_bound) (binding_key ''a'' ''T1''))"
    by blast
  with i
  have r2: "Map_get (audioEls (onParticipantDisconnected (person ''a'' ''PA_1'') two_bound))
              (binding_key ''a'' ''T1'') = None"
    by simp
  from a have "\<forall>e. Map_get (audioEls two_bound) (binding_key (identity (person ''a'' ''PA_1'')) ''T1'') = Some e
               \<or> Map_get (videoEls two_bound) (binding_key (identity (person ''a'' ''PA_1'')) ''T1'') = Some e
             \<longrightarrow> parentNode (onParticipantDisconnected (person ''a'' ''PA_1'') two_bound) e = None"
    by blast
  with i b(1)
  have r3: "parentNode (onParticipantDisconnected (person ''a'' ''PA_1'') two_bound) 1 = None"
    by simp
  from h1 h2 b r1 r2 r3 show ?thesis by blast
qed

text \<open>
  The claim as stated fails when an identity contains the delimiter: the key of a binding
  of \<^verbatim>\<open>a:b\<close> begins with \<^verbatim>\<open>a:\<close>, so the disconnect of \<^verbatim>\<open>a\<close> removes it.
\<close>

theorem onParticipantDisconnected_colon_identity:
  "Map_get (audioEls colon_bound) (binding_key ''a:b'' ''T2'') = Some 2
   \<and> Map_get (audioEls (emit 0 (ParticipantDisconnected (person ''a'' ''PA_1'')) colon_bound))
        (binding_key ''a:b'' ''T2'') = None"
  by (simp add: colon_bound_eq joined_state_def emit_def onPD_audioEls
      detachAllRemoteAudioFor_audioEls startsWith_def person_def binding_key_def)
     (simp add: Map_get_def)

subsection \<open>C7: a publication that cannot be unpublished\<close>

text \<open>
  C7. The code at the failing input: a session with the microphone (track 100) and the
  camera (track 101) published, and an \<^verbatim>\<open>unpublishTrack\<close> that rejects for the microphone.
  \<^verbatim>\<open>leaveLiveKit\<close> of part_003 leaves its loop at the rejection: it never calls
  \<^verbatim>\<open>unpublishTrack\<close> or \<^verbatim>\<open>stop\<close> for the camera, and neither track is stopped by the
  function; the steps after the loop run.
  \<^verbatim>\<open>leaveLiveKit\<close> of join.ts, on the same input, goes on to the camera and stops it.
\<close>

theorem leaveLiveKit_stops_at_failed_unpublish:
  "trackPublications twoPubs 0 = [\<lparr>pub_track = Some 100\<rparr>, \<lparr>pub_track = Some 101\<rparr>]
   \<and> capturing twoPubs = [100, 101]
   \<and> calls (leaveLiveKit env_unpublishFails twoPubs)
        = calls twoPubs @ [UnpublishTrack 0 (Some 100), Disconnect 0]
   \<and> capturing (leaveLiveKit env_unpublishFails twoPubs) = [100, 101]
   \<and> currentRoom (leaveLiveKit env_unpublishFails twoPubs) = None
   \<and> connected (leaveLiveKit env_unpublishFails twoPubs) = []
   \<and> calls (leaveLiveKit_audio env_unpublishFails twoPubs)
        = calls twoPubs @ [UnpublishTrack 0 (Some 100), UnpublishTrack 0 (Some 101),
                           StopTrack 101, Disconnect 0]
   \<and> capturing (leaveLiveKit_audio env_unpublishFails twoPubs) = [100]"
  by (simp add: twoPubs_def joined_is joined_state_def env_unpublishFails_def
      leaveLiveKit_audio_def eval_defs)

subsection \<open>C8: a join that fails\<close>

text \<open>
  C8. When \<^verbatim>\<open>joinLiveKit\<close> is rejected by the credential fetch or by the endpoint
  validation, the session handle is null and the state is the one its leave step left, but
  for the trace: nothing is set, and after an active session the surface references are
  null and both binding maps are empty. When it is rejected by the transport connect, the
  session handle is null and no handle is returned, the binding maps and the open
  transports are as the leave step left them, and the three surface references are the
  mounts of the call.
\<close>

theorem joinLiveKit_failure_state:
  assumes "joinLiveKit env roomId mnts op s = (Inl e, s')"
  shows "(credentialOrEndpointError e \<longrightarrow>
            currentRoom s' = None \<and> s' = (afterLeave env s)\<lparr>calls := calls s'\<rparr>)
       \<and> (credentialOrEndpointError e \<and> currentRoom s \<noteq> None \<longrightarrow>
            audioContainerEl s' = None \<and> remoteVideoContainerEl s' = None
          \<and> localVideoEl s' = None \<and> audioEls s' = [] \<and> videoEls s' = [])
       \<and> (e = ConnectError \<longrightarrow>
            currentRoom s' = None
          \<and> audioContainerEl s' = audioContainer mnts
          \<and> remoteVideoContainerEl s' = remoteVideoContainer mnts
          \<and> localVideoEl s' = localVideo mnts
          \<and> audioEls s' = audioEls (afterLeave env s)
          \<and> videoEls s' = videoEls (afterLeave env s)
          \<and> connected s' = connected (afterLeave env s))"
  using assms
proof (cases rule: joinLiveKit_cases)
  case empty
  then show ?thesis by simp
next
  case (credential e')
  then have e: "e' = e" by simp
  from fetchCredential_result [OF credential(3)] have c: "credentialOrEndpointError e'"
    by simp
  then have n: "e' \<noteq> ConnectError" by auto
  from fetchCredential_state [OF credential(3)]
  have st: "s' = (afterLeave env s)\<lparr>calls := calls s'\<rparr>" by simp
  have cur: "currentRoom s' = None"
    using fetchCredential_frame [OF credential(3)] by (simp add: afterLeave_fields)
  have fr: "currentRoom s \<noteq> None \<longrightarrow>
            audioContainerEl s' = None \<and> remoteVideoContainerEl s' = None
          \<and> localVideoEl s' = None \<and> audioEls s' = [] \<and> videoEls s' = []"
    using fetchCredential_frame [OF credential(3)]
    by (simp add: afterLeave_def leaveLiveKit_fields)
  from e n st cur fr show ?thesis by blast
next
  case (transport cfg token s5 e')
  then have e: "e' = e" by simp
  note f = fetchCredential_frame [OF transport(3)]
  from fetchCredential_state [OF transport(3)]
  have st5: "s5 = (afterLeave env s)\<lparr>calls := calls s5\<rparr>" by simp
  from transport(4) show ?thesis
  proof (cases rule: openTransport_cases)
    case badHost
    have fr: "currentRoom s \<noteq> None \<longrightarrow>
            audioContainerEl s' = None \<and> remoteVideoContainerEl s' = None
          \<and> localVideoEl s' = None \<and> audioEls s' = [] \<and> videoEls s' = []"
      using f badHost by (simp add: afterLeave_def leaveLiveKit_fields)
    have cur: "currentRoom s' = None"
      using f badHost by (simp add: afterLeave_fields)
    have st: "s' = (afterLeave env s)\<lparr>calls := calls s'\<rparr>"
      using st5 badHost by simp
    have n: "e \<noteq> ConnectError" using e badHost by simp
    from fr cur st n show ?thesis by blast
  next
    case connectError
    with f e show ?thesis
      by (simp add: afterLeave_fields)
  next
    case connected
    then show ?thesis by simp
  qed
next
  case (publish cfg token s5 room s9 e')
  from publishLocal_error [OF publish(5)] publish(2) show ?thesis
    by auto
qed simp

theorem joinLiveKit_failure_state_witness:
  "fst (joinLiveKit env_forbidden ''R2'' mounts3 audioOnly joined)
     = Inl (TokenEndpoint 403 ''not_a_room_member'')
   \<and> credentialOrEndpointError (TokenEndpoint 403 ''not_a_room_member'')
   \<and> currentRoom joined \<noteq> None
   \<and> currentRoom (snd (joinLiveKit env_forbidden ''R2'' mounts3 audioOnly joined)) = None
   \<and> audioContainerEl (snd (joinLiveKit env_forbidden ''R2'' mounts3 audioOnly joined)) = None
   \<and> audioEls (snd (joinLiveKit env_forbidden ''R2'' mounts3 audioOnly joined)) = []
   \<and> fst (joinLiveKit env_connectFails ''R1'' mounts3 audioOnly initial) = Inl ConnectError
   \<and> currentRoom (snd (joinLiveKit env_connectFails ''R1'' mounts3 audioOnly initial)) = None
   \<and> audioContainerEl (snd (joinLiveKit env_connectFails ''R1'' mounts3 audioOnly initial))
        = audioContainer mounts3"
proof -
  have ev1: "fst (joinLiveKit env_forbidden ''R2'' mounts3 audioOnly joined)
               = Inl (TokenEndpoint 403 ''not_a_room_member'')"
    by (simp add: joined_is joined_state_def env_forbidden_def forbidden_def eval_defs)
  have ev2: "fst (joinLiveKit env_connectFails ''R1'' mounts3 audioOnly initial) = Inl ConnectError"
    by (simp add: env_connectFails_def eval_defs)
  have j: "currentRoom joined \<noteq> None"
    by (simp add: joined_is joined_state_def)
  have 1: "joinLiveKit env_forbidden ''R2'' mounts3 audioOnly joined
             = (Inl (TokenEndpoint 403 ''not_a_room_member''),
                snd (joinLiveKit env_forbidden ''R2'' mounts3 audioOnly joined))"
    using ev1 by (metis prod.collapse)
  have 2: "joinLiveKit env_connectFails ''R1'' mounts3 audioOnly initial
             = (Inl ConnectError, snd (joinLiveKit env_connectFails ''R1'' mounts3 audioOnly initial))"
    using ev2 by (metis prod.collapse)
  from joinLiveKit_failure_state [OF 1] joinLiveKit_failure_state [OF 2] ev1 ev2 j show ?thesis
    by simp
qed

text \<open>
  The claim as stated fails: after a join whose connect is rejected, the three surface
  references are set and the handlers of the room that never connected are registered.
\<close>

theorem joinLiveKit_connect_failure_keeps_mounts:
  "fst (joinLiveKit env_connectFails ''R1'' mounts3 audioOnly initial) = Inl ConnectError
   \<and> audioContainerEl (snd (joinLiveKit env_connectFails ''R1'' mounts3 audioOnly initial)) = Some 1000
   \<and> remoteVideoContainerEl (snd (joinLiveKit env_connectFails ''R1'' mounts3 audioOnly initial)) = Some 1001
   \<and> localVideoEl (snd (joinLiveKit env_connectFails ''R1'' mounts3 audioOnly initial)) = Some 1002
   \<and> listeners (snd (joinLiveKit env_connectFails ''R1'' mounts3 audioOnly initial)) = [0]"
  by (simp add: env_connectFails_def eval_defs)

subsection \<open>C9: the credential fetch\<close>




subsection \<open>C10: an empty room identifier\<close>

text \<open>
  C10. \<^verbatim>\<open>joinLiveKit\<close> with an empty room identifier rejects with "roomId is required"
  and leaves the whole state as it was: the module variables, the DOM, the transports, and
  the trace of external calls, to which nothing is added.
\<close>

theorem joinLiveKit_empty_roomId:
  "joinLiveKit env [] mnts op s = (Inl RoomIdRequired, s)"
  by (simp add: joinLiveKit_def)
end
